theory Spec2Isabelle
  imports Main "HOL-Library.Sublist"
begin

section \<open>Python values\<close>

text \<open>
  Every value the client stores or passes on comes out of a decoded JSON document
  (\<^verbatim>\<open>response.json()\<close>, the tool arguments), so one datatype serves for both:
  \<open>JNull\<close> is Python's \<^verbatim>\<open>None\<close>, \<open>JObj\<close> a \<^verbatim>\<open>dict\<close> with its items
  in insertion order, \<open>JList\<close> a \<^verbatim>\<open>list\<close>. Numbers are integers: fractional
  JSON numbers are outside the model. A \<^verbatim>\<open>str\<close> is a \<open>string\<close> holding the UTF-8
  bytes of the text; substring tests on well-formed UTF-8 agree with substring tests on
  code points.
\<close>

datatype json =
    JNull
  | JBool bool
  | JInt int
  | JStr string
  | JList "json list"
  | JObj "(string \<times> json) list"

text \<open>The exceptions the modelled code can raise.\<close>

datatype exn =
    KeyError
  | IndexError
  | TypeError
  | AttributeError
  | OverflowError
  | ClientError
  | ContentTypeError
  | TokenError
  | NoRoomError

text \<open>Truth value of an object, as \<^verbatim>\<open>if x:\<close>, \<^verbatim>\<open>not x\<close> and \<^verbatim>\<open>x or y\<close> test it.\<close>

fun truthy :: "json \<Rightarrow> bool" where
  "truthy JNull = False"
| "truthy (JBool b) = b"
| "truthy (JInt n) = (n \<noteq> 0)"
| "truthy (JStr s) = (s \<noteq> [])"
| "truthy (JList xs) = (xs \<noteq> [])"
| "truthy (JObj kvs) = (kvs \<noteq> [])"

text \<open>\<^verbatim>\<open>x or y\<close>: the first operand when it is true, else the second.\<close>

definition py_or :: "json \<Rightarrow> json \<Rightarrow> json" where
  "py_or x y = (if truthy x then x else y)"

text \<open>\<^verbatim>\<open>isinstance(x, dict)\<close>, \<^verbatim>\<open>isinstance(x, list)\<close>.\<close>

fun is_dict :: "json \<Rightarrow> bool" where
  "is_dict (JObj kvs) = True"
| "is_dict _ = False"

fun is_list :: "json \<Rightarrow> bool" where
  "is_list (JList xs) = True"
| "is_list _ = False"

text \<open>\<^verbatim>\<open>d.get(k, dflt)\<close> on a value already known to be a dict.\<close>

fun dict_get :: "json \<Rightarrow> string \<Rightarrow> json \<Rightarrow> json" where
  "dict_get (JObj kvs) k dflt = (case map_of kvs k of None \<Rightarrow> dflt | Some v \<Rightarrow> v)"
| "dict_get _ k dflt = dflt"

text \<open>
  \<^verbatim>\<open>x[k]\<close> with a string key: \<^verbatim>\<open>KeyError\<close> on a dict without the key,
  \<^verbatim>\<open>TypeError\<close> on anything that is not a dict (a list or a string wants an integer
  index, the other values are not subscriptable).
\<close>

fun subscript :: "json \<Rightarrow> string \<Rightarrow> exn + json" where
  "subscript (JObj kvs) k = (case map_of kvs k of None \<Rightarrow> Inl KeyError | Some v \<Rightarrow> Inr v)"
| "subscript _ k = Inl TypeError"

text \<open>
  \<^verbatim>\<open>s in x\<close> for a string \<open>s\<close>: substring of a string, element of a list, key of a
  dict; \<^verbatim>\<open>TypeError\<close> on a value that is no container.
\<close>

fun str_in :: "string \<Rightarrow> json \<Rightarrow> exn + bool" where
  "str_in s (JStr t) = Inr (sublist s t)"
| "str_in s (JList xs) = Inr (JStr s \<in> set xs)"
| "str_in s (JObj kvs) = Inr (map_of kvs s \<noteq> None)"
| "str_in s _ = Inl TypeError"

text \<open>
  \<^verbatim>\<open>x.lower()\<close>: \<^verbatim>\<open>AttributeError\<close> on a value that is no string; on a string,
  the method \<^verbatim>\<open>str.lower\<close> of the Python runtime. Its table of Unicode case mappings
  is no part of this repository, so the model takes that function as the parameter
  \<open>lower\<close> of every function that calls it, and every property below is stated for
  whatever function stands in its place.
\<close>

fun py_lower :: "(string \<Rightarrow> string) \<Rightarrow> json \<Rightarrow> exn + string" where
  "py_lower lower (JStr s) = Inr (lower s)"
| "py_lower lower _ = Inl AttributeError"

text \<open>
  The scenarios are evaluated with \<open>ascii_lower\<close>: the letters A to Z go to a to z and
  every other byte stays as it is, which is what \<^verbatim>\<open>str.lower\<close> does to ASCII text and
  to text whose characters beyond ASCII have no case (kana among it).
\<close>

definition ascii_lower_char :: "char \<Rightarrow> char" where
  "ascii_lower_char c =
     (let n = (of_char c :: nat) in if 65 \<le> n \<and> n \<le> 90 then char_of (n + 32) else c)"

definition ascii_lower :: "string \<Rightarrow> string" where
  "ascii_lower s = map ascii_lower_char s"

text \<open>
  The characters of a string: each lead byte with the continuation bytes (\<open>10xxxxxx\<close>)
  that follow it.
\<close>

definition is_continuation :: "char \<Rightarrow> bool" where
  "is_continuation c = (let n = (of_char c :: nat) in 128 \<le> n \<and> n < 192)"

function utf8_chars :: "string \<Rightarrow> string list" where
  "utf8_chars [] = []"
| "utf8_chars (c # cs) =
     (c # takeWhile is_continuation cs) # utf8_chars (dropWhile is_continuation cs)"
  by pat_completeness auto
termination
  by (relation "measure length") (auto simp: length_dropWhile_le less_Suc_eq_le)

text \<open>
  Iterating a value with \<^verbatim>\<open>for\<close>: the elements of a list, the keys of a dict, the
  characters of a string; \<^verbatim>\<open>TypeError\<close> on the rest.
\<close>

fun py_iter :: "json \<Rightarrow> exn + json list" where
  "py_iter (JList xs) = Inr xs"
| "py_iter (JObj kvs) = Inr (map (\<lambda>kv. JStr (fst kv)) kvs)"
| "py_iter (JStr s) = Inr (map JStr (utf8_chars s))"
| "py_iter _ = Inl TypeError"

text \<open>\<^verbatim>\<open>len(x)\<close>.\<close>

fun py_len :: "json \<Rightarrow> exn + nat" where
  "py_len (JList xs) = Inr (length xs)"
| "py_len (JObj kvs) = Inr (length kvs)"
| "py_len (JStr s) = Inr (length (utf8_chars s))"
| "py_len _ = Inl TypeError"

text \<open>
  \<^verbatim>\<open>x[0]\<close>: the first element of a list, the first character of a string
  (\<^verbatim>\<open>IndexError\<close> when there is none), \<^verbatim>\<open>KeyError\<close> on a dict, whose keys
  are strings, \<^verbatim>\<open>TypeError\<close> on the rest.
\<close>

fun first_item :: "json \<Rightarrow> exn + json" where
  "first_item (JList []) = Inl IndexError"
| "first_item (JList (x # xs)) = Inr x"
| "first_item (JStr s) = (case utf8_chars s of [] \<Rightarrow> Inl IndexError | x # xs \<Rightarrow> Inr (JStr x))"
| "first_item (JObj kvs) = Inl KeyError"
| "first_item _ = Inl TypeError"

text \<open>
  \<^verbatim>\<open>x == y\<close>: \<^verbatim>\<open>True\<close> and \<^verbatim>\<open>False\<close> compare as the integers 1 and 0, lists
  compare element by element, dicts compare as sets of items.
\<close>

fun py_eq :: "json \<Rightarrow> json \<Rightarrow> bool" where
  "py_eq JNull y = (y = JNull)"
| "py_eq (JBool b) y = (y = JBool b \<or> y = JInt (if b then 1 else 0))"
| "py_eq (JInt n) y = (y = JInt n \<or> (n = 1 \<and> y = JBool True) \<or> (n = 0 \<and> y = JBool False))"
| "py_eq (JStr s) y = (y = JStr s)"
| "py_eq (JList xs) y =
     (case y of JList ys \<Rightarrow> list_all2 py_eq xs ys | _ \<Rightarrow> False)"
| "py_eq (JObj kvs) y =
     (case y of
        JObj kvs' \<Rightarrow>
          length kvs = length kvs' \<and>
          list_all (\<lambda>kv. case map_of kvs' (fst kv) of
                            None \<Rightarrow> False
                          | Some v' \<Rightarrow> py_eq (snd kv) v') kvs
      | _ \<Rightarrow> False)"

section \<open>The remote API and the clock\<close>

text \<open>
  The four requests the client sends. The URL and the headers of each are fixed by its
  kind and its fields: the refresh token posted to \<^verbatim>\<open>/oauth/token/refresh\<close>; the bearer
  token of \<^verbatim>\<open>GET /v1/rooms\<close>; room, text, \<^verbatim>\<open>unique_id\<close> and bearer token of a post to
  \<^verbatim>\<open>/v1/rooms/{room}/messages/text\<close>; room, motion document and bearer token of a post
  to \<^verbatim>\<open>/v1/rooms/{room}/motions\<close>.
\<close>

datatype motion_doc =
    HeadShakeDoc
  | SimpleNodDoc
  | CustomDoc json

datatype request =
    PostTokenRefresh string
  | GetRooms json
  | PostMessage json json int json
  | PostMotion json motion_doc json

text \<open>
  What comes back: a response with its status and its body (\<open>None\<close> when
  \<^verbatim>\<open>response.json()\<close> cannot decode it and raises), or no response at all (the
  transport raises).
\<close>

datatype http_outcome =
    Response int "json option"
  | TransportFailure

text \<open>
  The world outside the process: \<open>http\<close> answers a request given everything sent so far
  (the request itself last), \<open>clock\<close> gives the reading of the \<open>n\<close>-th call of
  \<^verbatim>\<open>datetime.now()\<close> in microseconds; \<open>requests\<close> is the log of the requests sent and
  \<open>ticks\<close> the number of clock readings taken. Nothing is assumed of either function.
\<close>

record world =
  http :: "request list \<Rightarrow> http_outcome"
  clock :: "nat \<Rightarrow> int"
  requests :: "request list"
  ticks :: nat

definition send :: "request \<Rightarrow> world \<Rightarrow> http_outcome \<times> world" where
  "send r w = (let log = requests w @ [r] in (http w log, w\<lparr>requests := log\<rparr>))"

definition now :: "world \<Rightarrow> int \<times> world" where
  "now w = (clock w (ticks w), w\<lparr>ticks := Suc (ticks w)\<rparr>)"

text \<open>
  Clock readings, expiries and durations are integers, in microseconds; a clock reading
  counts from the Unix epoch. \<^verbatim>\<open>timedelta(seconds=x)\<close> takes an integer number of
  seconds (\<^verbatim>\<open>bool\<close> is a subclass of \<^verbatim>\<open>int\<close>) and raises \<^verbatim>\<open>OverflowError\<close> when
  the duration is beyond 999999999 days either way, \<^verbatim>\<open>TypeError\<close> on a value that is no
  number. \<^verbatim>\<open>datetime + timedelta\<close> raises \<^verbatim>\<open>OverflowError\<close> when the sum leaves the
  years 1 to 9999, which begin 62135596800 seconds before the epoch and end 253402300800
  seconds after it. These are the two range checks \<^verbatim>\<open>get_access_token\<close> runs into;
  the difference that \<^verbatim>\<open>ensure_valid_token\<close> compares with is taken in the integers.
\<close>

fun timedelta_seconds :: "json \<Rightarrow> exn + int" where
  "timedelta_seconds (JInt n) =
     (if - 999999999 \<le> n div 86400 \<and> n div 86400 \<le> 999999999 then Inr (n * 1000000)
      else Inl OverflowError)"
| "timedelta_seconds (JBool b) = Inr (if b then 1000000 else 0)"
| "timedelta_seconds _ = Inl TypeError"

definition datetime_min :: int where
  "datetime_min = - 62135596800 * 1000000"

definition datetime_end :: int where
  "datetime_end = 253402300800 * 1000000"

definition datetime_add :: "int \<Rightarrow> int \<Rightarrow> exn + int" where
  "datetime_add t d =
     (if datetime_min \<le> t + d \<and> t + d < datetime_end then Inr (t + d) else Inl OverflowError)"

definition five_minutes :: int where
  "five_minutes = 5 * 60 * 1000000"

section \<open>BoccoEmoAPI\<close>

record api =
  refresh_token :: string
  access_token :: json
  token_expires_at :: "int option"
  rooms :: json
  default_room_id :: json

text \<open>\<^verbatim>\<open>__init__\<close>.\<close>

definition init_api :: "string \<Rightarrow> api" where
  "init_api tok =
     \<lparr>refresh_token = tok, access_token = JNull, token_expires_at = None,
      rooms = JList [], default_room_id = JNull\<rparr>"

text \<open>
  \<^verbatim>\<open>get_access_token\<close>. Every exception inside is caught and turned into
  \<^verbatim>\<open>False\<close>; the assignment to \<^verbatim>\<open>access_token\<close> comes before
  \<^verbatim>\<open>datetime.now() + timedelta(seconds=expires_in)\<close>, whose left operand reads the
  clock before the right one, or the sum, can raise.
\<close>

definition get_access_token :: "api \<Rightarrow> world \<Rightarrow> bool \<times> api \<times> world" where
  "get_access_token a w =
     (case send (PostTokenRefresh (refresh_token a)) w of
        (TransportFailure, w1) \<Rightarrow> (False, a, w1)
      | (Response st None, w1) \<Rightarrow> (False, a, w1)
      | (Response st (Some result), w1) \<Rightarrow>
          if st = 200 \<and> str_in ''access_token'' result = Inr True then
            (case subscript result ''access_token'' of
               Inl e \<Rightarrow> (False, a, w1)
             | Inr tok \<Rightarrow>
                 let a1 = a\<lparr>access_token := tok\<rparr>;
                     expires_in = dict_get result ''expires_in'' (JInt 3600);
                     (t, w2) = now w1
                 in (case timedelta_seconds expires_in of
                       Inl e \<Rightarrow> (False, a1, w2)
                     | Inr d \<Rightarrow>
                         (case datetime_add t d of
                            Inl e \<Rightarrow> (False, a1, w2)
                          | Inr expiry \<Rightarrow>
                              (True, a1\<lparr>token_expires_at := Some expiry\<rparr>, w2))))
          else (False, a, w1))"

text \<open>
  \<^verbatim>\<open>ensure_valid_token\<close>. The \<^verbatim>\<open>or\<close> chain reads the clock only when there is a
  token and an expiry.
\<close>

definition ensure_valid_token :: "api \<Rightarrow> world \<Rightarrow> bool \<times> api \<times> world" where
  "ensure_valid_token a w =
     (if \<not> truthy (access_token a) then get_access_token a w
      else case token_expires_at a of
             None \<Rightarrow> get_access_token a w
           | Some e \<Rightarrow>
               let (t, w1) = now w
               in if t > e - five_minutes then get_access_token a w1 else (True, a, w1))"

text \<open>
  The marker of the default room, tested by \<^verbatim>\<open>MARKER in room_name or "emo" in
  room_name.lower()\<close>, where \<^verbatim>\<open>MARKER\<close> is the literal of the two katakana U+30A8
  U+30E2 (in UTF-8 the bytes E3 82 A8 E3 83 A2): the katakana pair as it is, or \<open>emo\<close> in
  any mix of cases.
\<close>

definition marker_kana :: string where
  "marker_kana = [CHR 0xE3, CHR 0x82, CHR 0xA8, CHR 0xE3, CHR 0x83, CHR 0xA2]"

definition name_has_marker :: "(string \<Rightarrow> string) \<Rightarrow> json \<Rightarrow> exn + bool" where
  "name_has_marker lower room_name =
     (case str_in marker_kana room_name of
        Inl e \<Rightarrow> Inl e
      | Inr True \<Rightarrow> Inr True
      | Inr False \<Rightarrow>
          (case py_lower lower room_name of
             Inl e \<Rightarrow> Inl e
           | Inr l \<Rightarrow> Inr (sublist ''emo'' l)))"

text \<open>
  The \<^verbatim>\<open>for\<close> loop of \<^verbatim>\<open>fetch_rooms\<close> that looks for the marked room: the
  \<^verbatim>\<open>uuid\<close> of the first dict whose name has the marker (the method returns there),
  \<open>None\<close> when the loop runs to its end.
\<close>

fun marked_room_scan :: "(string \<Rightarrow> string) \<Rightarrow> json list \<Rightarrow> exn + json option" where
  "marked_room_scan lower [] = Inr None"
| "marked_room_scan lower (room # rest) =
     (if is_dict room then
        (case name_has_marker lower (dict_get room ''name'' (JStr [])) of
           Inl e \<Rightarrow> Inl e
         | Inr True \<Rightarrow>
             (case subscript room ''uuid'' of
                Inl e \<Rightarrow> Inl e
              | Inr u \<Rightarrow> Inr (Some u))
         | Inr False \<Rightarrow> marked_room_scan lower rest)
      else marked_room_scan lower rest)"

text \<open>
  The block of \<^verbatim>\<open>fetch_rooms\<close> that sets the default room, run after
  \<^verbatim>\<open>self.rooms\<close> has been assigned: the value returned, or the exception raised, and
  the state left.
\<close>

definition set_default_room :: "(string \<Rightarrow> string) \<Rightarrow> api \<Rightarrow> (exn + bool) \<times> api" where
  "set_default_room lower a =
     (if truthy (rooms a) then
        (case py_iter (rooms a) of
           Inl e \<Rightarrow> (Inl e, a)
         | Inr xs \<Rightarrow>
             (case marked_room_scan lower xs of
                Inl e \<Rightarrow> (Inl e, a)
              | Inr (Some u) \<Rightarrow> (Inr True, a\<lparr>default_room_id := u\<rparr>)
              | Inr None \<Rightarrow>
                  (case first_item (rooms a) of
                     Inl e \<Rightarrow> (Inl e, a)
                   | Inr room0 \<Rightarrow>
                       if is_dict room0 then
                         (case subscript room0 ''uuid'' of
                            Inl e \<Rightarrow> (Inl e, a)
                          | Inr u \<Rightarrow> (Inr True, a\<lparr>default_room_id := u\<rparr>))
                       else (Inr True, a))))
      else (Inr True, a))"

text \<open>
  \<^verbatim>\<open>fetch_rooms\<close>. The token check comes before the \<^verbatim>\<open>try\<close>; every exception
  after it is caught and turned into \<^verbatim>\<open>False\<close>, with \<^verbatim>\<open>self.rooms\<close> already
  assigned when the default-room block raises.
\<close>

definition store_rooms :: "(string \<Rightarrow> string) \<Rightarrow> json \<Rightarrow> api \<Rightarrow> world \<Rightarrow> bool \<times> api \<times> world" where
  "store_rooms lower r a w =
     (case set_default_room lower (a\<lparr>rooms := r\<rparr>) of
        (Inl e, a') \<Rightarrow> (False, a', w)
      | (Inr b, a') \<Rightarrow> (b, a', w))"

definition fetch_rooms :: "(string \<Rightarrow> string) \<Rightarrow> api \<Rightarrow> world \<Rightarrow> bool \<times> api \<times> world" where
  "fetch_rooms lower a w =
     (case ensure_valid_token a w of
        (ok, a1, w1) \<Rightarrow>
          if \<not> ok then (False, a1, w1)
          else
            (case send (GetRooms (access_token a1)) w1 of
               (TransportFailure, w2) \<Rightarrow> (False, a1, w2)
             | (Response st body, w2) \<Rightarrow>
                 if st = 200 then
                   (case body of
                      None \<Rightarrow> (False, a1, w2)
                    | Some (JObj kvs) \<Rightarrow>
                        (case map_of kvs ''rooms'' of
                           Some r \<Rightarrow> store_rooms lower r a1 w2
                         | None \<Rightarrow> (False, a1, w2))
                    | Some (JList xs) \<Rightarrow> store_rooms lower (JList xs) a1 w2
                    | Some _ \<Rightarrow> (False, a1, w2))
                 else (False, a1, w2)))"

text \<open>
  \<^verbatim>\<open>send_message\<close> and \<^verbatim>\<open>send_motion\<close>: the result dict, or the exception that
  leaves the method. \<^verbatim>\<open>unique_id\<close> is the clock reading in milliseconds.
\<close>

definition op_result :: "int \<Rightarrow> json \<Rightarrow> json \<Rightarrow> json" where
  "op_result st result target_room =
     JObj [(''status'', JInt st), (''data'', result), (''room_id'', target_room)]"

definition send_message :: "json \<Rightarrow> json \<Rightarrow> api \<Rightarrow> world \<Rightarrow> (exn + json) \<times> api \<times> world" where
  "send_message text room_id a w =
     (case ensure_valid_token a w of
        (ok, a1, w1) \<Rightarrow>
          if \<not> ok then (Inl TokenError, a1, w1)
          else
            let target_room = py_or room_id (default_room_id a1)
            in if \<not> truthy target_room then (Inl NoRoomError, a1, w1)
               else
                 let (t, w2) = now w1
                 in (case send (PostMessage target_room text (t div 1000) (access_token a1)) w2 of
                       (TransportFailure, w3) \<Rightarrow> (Inl ClientError, a1, w3)
                     | (Response st None, w3) \<Rightarrow> (Inl ContentTypeError, a1, w3)
                     | (Response st (Some result), w3) \<Rightarrow>
                         (Inr (op_result st result target_room), a1, w3)))"

definition send_motion :: "motion_doc \<Rightarrow> json \<Rightarrow> api \<Rightarrow> world \<Rightarrow> (exn + json) \<times> api \<times> world" where
  "send_motion motion_data room_id a w =
     (case ensure_valid_token a w of
        (ok, a1, w1) \<Rightarrow>
          if \<not> ok then (Inl TokenError, a1, w1)
          else
            let target_room = py_or room_id (default_room_id a1)
            in if \<not> truthy target_room then (Inl NoRoomError, a1, w1)
               else
                 (case send (PostMotion target_room motion_data (access_token a1)) w1 of
                    (TransportFailure, w2) \<Rightarrow> (Inl ClientError, a1, w2)
                  | (Response st None, w2) \<Rightarrow> (Inl ContentTypeError, a1, w2)
                  | (Response st (Some result), w2) \<Rightarrow>
                      (Inr (op_result st result target_room), a1, w2)))"

text \<open>
  \<^verbatim>\<open>get_rooms_info\<close>: the value of \<^verbatim>\<open>fetch_rooms\<close> is dropped, the status is the
  literal 200, and \<^verbatim>\<open>len(self.rooms)\<close> raises on a value without a length.
\<close>

definition rooms_info :: "json \<Rightarrow> json \<Rightarrow> nat \<Rightarrow> json" where
  "rooms_info rs dflt n =
     JObj [(''status'', JInt 200),
           (''data'', JObj [(''rooms'', rs), (''default_room_id'', dflt),
                            (''room_count'', JInt (int n))])]"

definition get_rooms_info :: "(string \<Rightarrow> string) \<Rightarrow> api \<Rightarrow> world \<Rightarrow> (exn + json) \<times> api \<times> world" where
  "get_rooms_info lower a w =
     (let (a1, w1) =
            (if \<not> truthy (rooms a) then
               (case fetch_rooms lower a w of (ok, a', w') \<Rightarrow> (a', w'))
             else (a, w))
      in case py_len (rooms a1) of
           Inl e \<Rightarrow> (Inl e, a1, w1)
         | Inr n \<Rightarrow> (Inr (rooms_info (rooms a1) (default_room_id a1) n), a1, w1))"

text \<open>
  \<^verbatim>\<open>initialize\<close>, which \<^verbatim>\<open>__aenter__\<close> runs: it raises when the token cannot be
  had, drops the value of \<^verbatim>\<open>fetch_rooms\<close>, and logs \<^verbatim>\<open>len(self.rooms)\<close>.
\<close>

definition initialize :: "(string \<Rightarrow> string) \<Rightarrow> api \<Rightarrow> world \<Rightarrow> (exn + unit) \<times> api \<times> world" where
  "initialize lower a w =
     (case get_access_token a w of
        (ok, a1, w1) \<Rightarrow>
          if \<not> ok then (Inl TokenError, a1, w1)
          else
            (case fetch_rooms lower a1 w1 of
               (ok2, a2, w2) \<Rightarrow>
                 (case py_len (rooms a2) of
                    Inl e \<Rightarrow> (Inl e, a2, w2)
                  | Inr n \<Rightarrow> (Inr (), a2, w2))))"

section \<open>The tool dispatcher\<close>

text \<open>
  The motion catalog. The two keyframe documents are constants that the dispatcher
  passes on unread, so each stands here as a name of its own; the keys are the
  catalog's.
\<close>

definition PREDEFINED_MOTIONS :: "(string \<times> motion_doc) list" where
  "PREDEFINED_MOTIONS = [(''head_shake'', HeadShakeDoc), (''simple_nod'', SimpleNodDoc)]"

text \<open>
  \<^verbatim>\<open>motion_name in PREDEFINED_MOTIONS\<close>: a list or a dict is unhashable and raises
  \<^verbatim>\<open>TypeError\<close>; a value that is no string is no key.
\<close>

fun in_catalog :: "json \<Rightarrow> exn + motion_doc option" where
  "in_catalog (JStr k) = Inr (map_of PREDEFINED_MOTIONS k)"
| "in_catalog (JList xs) = Inl TypeError"
| "in_catalog (JObj kvs) = Inl TypeError"
| "in_catalog _ = Inr None"

text \<open>
  The text a tool call returns: one constructor for each \<^verbatim>\<open>TextContent\<close> the
  dispatcher builds, holding the values its f-string interpolates, in their order.
  \<open>RoomNotFoundListing\<close> is the text of the message tool (the room name asked for and
  the names of the rooms), \<open>RoomNotFound\<close> the text the two motion tools share (the
  room name asked for). A room name of \<open>None\<close> in \<open>MessageSent\<close> and \<open>MotionDone\<close>
  is the fixed label of the default room.
\<close>

datatype reply =
    RoomNotFoundListing json "json list"
  | MessageSent json "json option" json
  | UnknownMotion json "string list"
  | RoomNotFound json
  | MotionDone json "json option" json
  | CustomMotionSent json
  | RoomsInfo json
  | NoRoomsFound
  | RoomsListing "(bool \<times> nat \<times> json \<times> json) list" json json
  | ListingError exn
  | UnknownTool string
  | DispatchError exn

text \<open>
  The loop that resolves a room name: the \<^verbatim>\<open>uuid\<close> of the first dict whose
  lower-cased name contains the lower-cased room name (\<^verbatim>\<open>break\<close>), \<^verbatim>\<open>None\<close>
  when there is none.
\<close>

fun resolve_scan :: "(string \<Rightarrow> string) \<Rightarrow> json \<Rightarrow> json list \<Rightarrow> exn + json" where
  "resolve_scan lower room_name [] = Inr JNull"
| "resolve_scan lower room_name (room # rest) =
     (if is_dict room then
        (case py_lower lower room_name of
           Inl e \<Rightarrow> Inl e
         | Inr q \<Rightarrow>
             (case py_lower lower (dict_get room ''name'' (JStr [])) of
                Inl e \<Rightarrow> Inl e
              | Inr n \<Rightarrow>
                  if sublist q n then subscript room ''uuid''
                  else resolve_scan lower room_name rest))
      else resolve_scan lower room_name rest)"

text \<open>
  What the lines from \<^verbatim>\<open>room_id = None\<close> to the \<^verbatim>\<open>if not room_id:\<close> leave: the
  room id to send to (\<^verbatim>\<open>None\<close> when no room name was given), or \<open>NotFound\<close> when
  the name was given and the scan left a false \<^verbatim>\<open>room_id\<close>.
\<close>

datatype resolution =
    Resolved json
  | NotFound

definition resolve_room :: "(string \<Rightarrow> string) \<Rightarrow> api \<Rightarrow> json \<Rightarrow> exn + resolution" where
  "resolve_room lower a room_name =
     (if truthy room_name then
        (case py_iter (rooms a) of
           Inl e \<Rightarrow> Inl e
         | Inr xs \<Rightarrow>
             (case resolve_scan lower room_name xs of
                Inl e \<Rightarrow> Inl e
              | Inr room_id \<Rightarrow>
                  if \<not> truthy room_id then Inr NotFound else Inr (Resolved room_id)))
      else Inr (Resolved JNull))"

text \<open>\<^verbatim>\<open>[r.get('name') for r in api.rooms if isinstance(r, dict)]\<close>.\<close>

definition room_names :: "api \<Rightarrow> exn + json list" where
  "room_names a =
     (case py_iter (rooms a) of
        Inl e \<Rightarrow> Inl e
      | Inr xs \<Rightarrow> Inr (map (\<lambda>r. dict_get r ''name'' JNull) (filter is_dict xs)))"

text \<open>The loop that finds the display name of the room used.\<close>

fun used_room_scan :: "json \<Rightarrow> json list \<Rightarrow> exn + json option" where
  "used_room_scan rid [] = Inr None"
| "used_room_scan rid (room # rest) =
     (if is_dict room then
        (case subscript room ''uuid'' of
           Inl e \<Rightarrow> Inl e
         | Inr u \<Rightarrow>
             if py_eq u rid then Inr (Some (dict_get room ''name'' (JStr ''Unknown'')))
             else used_room_scan rid rest)
      else used_room_scan rid rest)"

definition used_room_name :: "api \<Rightarrow> json \<Rightarrow> exn + json option" where
  "used_room_name a result =
     (case subscript result ''room_id'' of
        Inl e \<Rightarrow> Inl e
      | Inr rid \<Rightarrow>
          if truthy rid then
            (case py_iter (rooms a) of
               Inl e \<Rightarrow> Inl e
             | Inr xs \<Rightarrow> used_room_scan rid xs)
          else Inr None)"

text \<open>The branch of \<^verbatim>\<open>bocco_send_message\<close>.\<close>

definition tool_send_message :: "(string \<Rightarrow> string) \<Rightarrow> (string \<rightharpoonup> json) \<Rightarrow> api \<Rightarrow> world \<Rightarrow> (exn + reply) \<times> world" where
  "tool_send_message lower arguments a w =
     (case arguments ''message'' of
        None \<Rightarrow> (Inl KeyError, w)
      | Some message \<Rightarrow>
          let room_name = (case arguments ''room_name'' of None \<Rightarrow> JNull | Some v \<Rightarrow> v)
          in (case resolve_room lower a room_name of
                Inl e \<Rightarrow> (Inl e, w)
              | Inr NotFound \<Rightarrow>
                  (case room_names a of
                     Inl e \<Rightarrow> (Inl e, w)
                   | Inr names \<Rightarrow> (Inr (RoomNotFoundListing room_name names), w))
              | Inr (Resolved room_id) \<Rightarrow>
                  (case send_message message room_id a w of
                     (Inl e, a1, w1) \<Rightarrow> (Inl e, w1)
                   | (Inr result, a1, w1) \<Rightarrow>
                       (case used_room_name a1 result of
                          Inl e \<Rightarrow> (Inl e, w1)
                        | Inr used \<Rightarrow>
                            (Inr (MessageSent message used (dict_get result ''status'' JNull)),
                             w1)))))"

text \<open>The branch of \<^verbatim>\<open>bocco_send_motion\<close>.\<close>

definition tool_send_motion :: "(string \<Rightarrow> string) \<Rightarrow> (string \<rightharpoonup> json) \<Rightarrow> api \<Rightarrow> world \<Rightarrow> (exn + reply) \<times> world" where
  "tool_send_motion lower arguments a w =
     (case arguments ''motion_name'' of
        None \<Rightarrow> (Inl KeyError, w)
      | Some motion_name \<Rightarrow>
          let room_name = (case arguments ''room_name'' of None \<Rightarrow> JNull | Some v \<Rightarrow> v)
          in (case in_catalog motion_name of
                Inl e \<Rightarrow> (Inl e, w)
              | Inr None \<Rightarrow>
                  (Inr (UnknownMotion motion_name (map fst PREDEFINED_MOTIONS)), w)
              | Inr (Some motion_data) \<Rightarrow>
                  (case resolve_room lower a room_name of
                     Inl e \<Rightarrow> (Inl e, w)
                   | Inr NotFound \<Rightarrow> (Inr (RoomNotFound room_name), w)
                   | Inr (Resolved room_id) \<Rightarrow>
                       (case send_motion motion_data room_id a w of
                          (Inl e, a1, w1) \<Rightarrow> (Inl e, w1)
                        | (Inr result, a1, w1) \<Rightarrow>
                            (case used_room_name a1 result of
                               Inl e \<Rightarrow> (Inl e, w1)
                             | Inr used \<Rightarrow>
                                 (Inr (MotionDone motion_name used
                                         (dict_get result ''status'' JNull)),
                                  w1))))))"

text \<open>The branch of \<^verbatim>\<open>bocco_custom_motion\<close>.\<close>

definition tool_custom_motion :: "(string \<Rightarrow> string) \<Rightarrow> (string \<rightharpoonup> json) \<Rightarrow> api \<Rightarrow> world \<Rightarrow> (exn + reply) \<times> world" where
  "tool_custom_motion lower arguments a w =
     (case arguments ''motion_json'' of
        None \<Rightarrow> (Inl KeyError, w)
      | Some motion_json \<Rightarrow>
          let room_name = (case arguments ''room_name'' of None \<Rightarrow> JNull | Some v \<Rightarrow> v)
          in (case resolve_room lower a room_name of
                Inl e \<Rightarrow> (Inl e, w)
              | Inr NotFound \<Rightarrow> (Inr (RoomNotFound room_name), w)
              | Inr (Resolved room_id) \<Rightarrow>
                  (case send_motion (CustomDoc motion_json) room_id a w of
                     (Inl e, a1, w1) \<Rightarrow> (Inl e, w1)
                   | (Inr result, a1, w1) \<Rightarrow>
                       (Inr (CustomMotionSent (dict_get result ''status'' JNull)), w1))))"

text \<open>The branch of \<^verbatim>\<open>bocco_get_rooms\<close>.\<close>

definition tool_get_rooms :: "(string \<Rightarrow> string) \<Rightarrow> api \<Rightarrow> world \<Rightarrow> (exn + reply) \<times> world" where
  "tool_get_rooms lower a w =
     (case get_rooms_info lower a w of
        (Inl e, a1, w1) \<Rightarrow> (Inl e, w1)
      | (Inr result, a1, w1) \<Rightarrow> (Inr (RoomsInfo result), w1))"

text \<open>
  The branch of \<^verbatim>\<open>bocco_list_rooms\<close>: one entry for each dict of
  \<^verbatim>\<open>enumerate(rooms, 1)\<close>, with the default marker, the number, the name and the id.
  An exception inside its own \<^verbatim>\<open>try\<close> becomes the text \<open>ListingError\<close>.
\<close>

definition listing_entries :: "json \<Rightarrow> json list \<Rightarrow> (bool \<times> nat \<times> json \<times> json) list" where
  "listing_entries dflt xs =
     map (\<lambda>(i, room).
            let name = dict_get room ''name'' (JStr ''Unknown'');
                uuid = dict_get room ''uuid'' (JStr ''Unknown'')
            in (py_eq uuid dflt, i, name, uuid))
         (filter (\<lambda>(i, room). is_dict room) (zip [1 ..< Suc (length xs)] xs))"

definition tool_list_rooms :: "(string \<Rightarrow> string) \<Rightarrow> api \<Rightarrow> world \<Rightarrow> (exn + reply) \<times> world" where
  "tool_list_rooms lower a w =
     (case get_rooms_info lower a w of
        (Inl e, a1, w1) \<Rightarrow> (Inl e, w1)
      | (Inr result, a1, w1) \<Rightarrow>
          let data = dict_get result ''data'' JNull;
              rs = dict_get data ''rooms'' JNull;
              dflt = dict_get data ''default_room_id'' JNull
          in if \<not> truthy rs then (Inr NoRoomsFound, w1)
             else
               (case py_iter rs of
                  Inl e \<Rightarrow> (Inr (ListingError e), w1)
                | Inr xs \<Rightarrow>
                    (Inr (RoomsListing (listing_entries dflt xs)
                            (dict_get data ''room_count'' JNull) dflt),
                     w1)))"

text \<open>
  \<^verbatim>\<open>call_tool\<close>: a new client for every call, initialised before the tool name is
  looked at; the outer \<^verbatim>\<open>except\<close> turns every exception into the text
  \<open>DispatchError\<close>.
\<close>

definition caught :: "(exn + reply) \<times> world \<Rightarrow> reply \<times> world" where
  "caught r = (case r of (Inl e, w) \<Rightarrow> (DispatchError e, w) | (Inr t, w) \<Rightarrow> (t, w))"

definition call_tool :: "(string \<Rightarrow> string) \<Rightarrow> string \<Rightarrow> string \<Rightarrow> (string \<rightharpoonup> json) \<Rightarrow> world \<Rightarrow> reply \<times> world" where
  "call_tool lower REFRESH_TOKEN name arguments w =
     (case initialize lower (init_api REFRESH_TOKEN) w of
        (Inl e, a, w1) \<Rightarrow> (DispatchError e, w1)
      | (Inr u, a, w1) \<Rightarrow>
          caught
            (if name = ''bocco_send_message'' then tool_send_message lower arguments a w1
             else if name = ''bocco_send_motion'' then tool_send_motion lower arguments a w1
             else if name = ''bocco_custom_motion'' then tool_custom_motion lower arguments a w1
             else if name = ''bocco_get_rooms'' then tool_get_rooms lower a w1
             else if name = ''bocco_list_rooms'' then tool_list_rooms lower a w1
             else (Inr (UnknownTool name), w1)))"

section \<open>Vocabulary of the properties\<close>

text \<open>
  The test of \<^verbatim>\<open>ensure_valid_token\<close> at the clock reading \<open>t\<close>: no access token, no
  expiry, or \<open>t\<close> later than five minutes before the expiry.
\<close>

definition needs_refresh :: "api \<Rightarrow> int \<Rightarrow> bool" where
  "needs_refresh a t =
     (\<not> truthy (access_token a) \<or>
      (case token_expires_at a of None \<Rightarrow> True | Some e \<Rightarrow> t > e - five_minutes))"

text \<open>
  The answer to the token-refresh request sent from the state \<open>a\<close> in the world \<open>w\<close>,
  and the answers that are no status 200: no response at all, or another status.
\<close>

definition refresh_outcome :: "api \<Rightarrow> world \<Rightarrow> http_outcome" where
  "refresh_outcome a w = http w (requests w @ [PostTokenRefresh (refresh_token a)])"

fun refused :: "http_outcome \<Rightarrow> bool" where
  "refused TransportFailure = True"
| "refused (Response st body) = (st \<noteq> 200)"



definition room_name :: "json \<Rightarrow> string" where
  "room_name r = (case dict_get r ''name'' (JStr []) of JStr n \<Rightarrow> n | _ \<Rightarrow> [])"




text \<open>
  The room a request is addressed to; the two requests of the session itself (token
  refresh, room listing) are addressed to none.
\<close>

fun target_of :: "request \<Rightarrow> json option" where
  "target_of (PostTokenRefresh r) = None"
| "target_of (GetRooms t) = None"
| "target_of (PostMessage room text uid t) = Some room"
| "target_of (PostMotion room doc t) = Some room"

definition is_session_request :: "request \<Rightarrow> bool" where
  "is_session_request r = (target_of r = None)"




text \<open>
  The two texts that report a room name that resolved to no room, and the requests that
  are addressed to the room \<open>d\<close> or to no room.
\<close>

fun is_room_not_found :: "reply \<Rightarrow> bool" where
  "is_room_not_found (RoomNotFoundListing rn names) = True"
| "is_room_not_found (RoomNotFound rn) = True"
| "is_room_not_found _ = False"

definition addressed_to :: "json \<Rightarrow> request \<Rightarrow> bool" where
  "addressed_to d r = (case target_of r of None \<Rightarrow> True | Some room \<Rightarrow> room = d)"

text \<open>
  The expiry that a refresh at the clock reading \<open>t\<close> with \<^verbatim>\<open>expires_in\<close> of \<open>n\<close>
  seconds asks for is one that \<^verbatim>\<open>timedelta\<close> and \<^verbatim>\<open>datetime\<close> can hold.
\<close>

definition expiry_in_range :: "int \<Rightarrow> int \<Rightarrow> bool" where
  "expiry_in_range t n =
     (- 999999999 \<le> n div 86400 \<and> n div 86400 \<le> 999999999 \<and>
      datetime_min \<le> t + n * 1000000 \<and> t + n * 1000000 < datetime_end)"

section \<open>Scenarios\<close>

text \<open>
  A remote side that grants the token \<open>tok\<close> for an hour, lists the rooms it is given
  and accepts every message and motion; a clock that advances one second at each
  reading; a client that holds a token good for an hour.
\<close>

definition token_reply :: json where
  "token_reply = JObj [(''access_token'', JStr ''tok''), (''expires_in'', JInt 3600)]"

definition server :: "json \<Rightarrow> request list \<Rightarrow> http_outcome" where
  "server rooms_body log =
     (case last log of
        PostTokenRefresh r \<Rightarrow> Response 200 (Some token_reply)
      | GetRooms t \<Rightarrow> Response 200 (Some rooms_body)
      | PostMessage room text uid t \<Rightarrow> Response 200 (Some (JObj []))
      | PostMotion room doc t \<Rightarrow> Response 200 (Some (JObj [])))"

definition world0 :: "json \<Rightarrow> world" where
  "world0 rooms_body =
     \<lparr>http = server rooms_body, clock = (\<lambda>n. 1000000 * int n), requests = [], ticks = 0\<rparr>"

definition fresh_token_api :: api where
  "fresh_token_api =
     \<lparr>refresh_token = ''R'', access_token = JStr ''tok'', token_expires_at = Some 3600000000,
      rooms = JList [], default_room_id = JNull\<rparr>"

text \<open>A remote side that refuses every request with status 401.\<close>

definition refusing_world :: world where
  "refusing_world =
     \<lparr>http = (\<lambda>log. Response 401 (Some (JObj [(''error'', JStr ''invalid_grant'')]))),
      clock = (\<lambda>n. 1000000 * int n), requests = [], ticks = 0\<rparr>"

text \<open>Three rooms, the marked ones second and third.\<close>

definition three_rooms :: "json list" where
  "three_rooms =
     [JObj [(''name'', JStr ''Office''), (''uuid'', JStr ''B'')],
      JObj [(''name'', JStr ''EMO Lab''), (''uuid'', JStr ''A'')],
      JObj [(''name'', JStr (marker_kana @ '' room'')), (''uuid'', JStr ''C'')]]"

text \<open>A client that holds three rooms, two of them kitchens.\<close>

definition kitchen_rooms :: "json list" where
  "kitchen_rooms =
     [JObj [(''name'', JStr ''Office''), (''uuid'', JStr ''B'')],
      JObj [(''name'', JStr ''Kitchen Assistant''), (''uuid'', JStr ''K'')],
      JObj [(''name'', JStr ''Back kitchen''), (''uuid'', JStr ''K2'')]]"


text \<open>A call of the motion tool with a name the catalog does not have.\<close>

definition dance_arguments :: "string \<rightharpoonup> json" where
  "dance_arguments = [''motion_name'' \<mapsto> JStr ''dance'']"





text \<open>Calls of the three tools that take a room name, asking for a room that is not there.\<close>

definition garage_message :: "string \<rightharpoonup> json" where
  "garage_message = [''message'' \<mapsto> JStr ''hi'', ''room_name'' \<mapsto> JStr ''garage'']"

definition garage_motion :: "string \<rightharpoonup> json" where
  "garage_motion = [''motion_name'' \<mapsto> JStr ''simple_nod'', ''room_name'' \<mapsto> JStr ''garage'']"

definition garage_custom :: "string \<rightharpoonup> json" where
  "garage_custom = [''motion_json'' \<mapsto> JObj [], ''room_name'' \<mapsto> JStr ''garage'']"






text \<open>A call of the message tool that names no room.\<close>

definition hi_arguments :: "string \<rightharpoonup> json" where
  "hi_arguments = [''message'' \<mapsto> JStr ''hi'']"

text \<open>A remote side that grants a token for more seconds than a \<^verbatim>\<open>timedelta\<close> holds.\<close>

definition endless_world :: world where
  "endless_world =
     \<lparr>http = (\<lambda>log. Response 200 (Some (JObj [(''access_token'', JStr ''new''),
                                                  (''expires_in'', JInt 1000000000000000000)]))),
      clock = (\<lambda>n. 1000000 * int n), requests = [], ticks = 0\<rparr>"

text \<open>Calls of the two motion tools that name no room.\<close>

definition nod_arguments :: "string \<rightharpoonup> json" where
  "nod_arguments = [''motion_name'' \<mapsto> JStr ''simple_nod'']"

definition custom_arguments :: "string \<rightharpoonup> json" where
  "custom_arguments = [''motion_json'' \<mapsto> JObj []]"

section \<open>Properties\<close>

subsection \<open>Token refresh\<close>

lemma get_access_token_requests:
  "requests (snd (snd (get_access_token a w))) = requests w @ [PostTokenRefresh (refresh_token a)]"
  by (auto simp: get_access_token_def send_def now_def Let_def
           split: prod.splits http_outcome.splits option.splits sum.splits)



theorem get_access_token_counterexample:
  "refused (refresh_outcome fresh_token_api refusing_world) \<and>
   \<not> fst (get_access_token fresh_token_api refusing_world) \<and>
   access_token (fst (snd (get_access_token fresh_token_api refusing_world))) = JStr ''tok'' \<and>
   token_expires_at (fst (snd (get_access_token fresh_token_api refusing_world)))
     = Some 3600000000 \<and>
   fst (ensure_valid_token (fst (snd (get_access_token fresh_token_api refusing_world)))
          (snd (snd (get_access_token fresh_token_api refusing_world)))) \<and>
   requests (snd (snd (ensure_valid_token
                         (fst (snd (get_access_token fresh_token_api refusing_world)))
                         (snd (snd (get_access_token fresh_token_api refusing_world))))))
     = [PostTokenRefresh ''R'']"
  by code_simp

lemma get_access_token_refused:
  "refused (refresh_outcome a w) \<Longrightarrow>
   get_access_token a w = (False, a, snd (send (PostTokenRefresh (refresh_token a)) w))"
  by (cases "refresh_outcome a w")
     (auto simp: get_access_token_def send_def refresh_outcome_def Let_def split: option.splits)

lemma get_access_token_granted:
  assumes "refresh_outcome a w = Response 200 (Some (JObj kvs))"
      and "map_of kvs ''access_token'' = Some tok"
      and "dict_get (JObj kvs) ''expires_in'' (JInt 3600) = JInt n"
  shows "get_access_token a w =
           (if expiry_in_range (clock w (ticks w)) n
            then (True, a\<lparr>access_token := tok,
                           token_expires_at := Some (clock w (ticks w) + n * 1000000)\<rparr>,
                  snd (now (snd (send (PostTokenRefresh (refresh_token a)) w))))
            else (False, a\<lparr>access_token := tok\<rparr>,
                  snd (now (snd (send (PostTokenRefresh (refresh_token a)) w)))))"
proof -
  have s: "send (PostTokenRefresh (refresh_token a)) w =
             (Response 200 (Some (JObj kvs)), w\<lparr>requests := requests w @ [PostTokenRefresh (refresh_token a)]\<rparr>)"
    using assms(1) by (simp add: send_def refresh_outcome_def Let_def)
  have e: "(case map_of kvs ''expires_in'' of None \<Rightarrow> JInt 3600 | Some v \<Rightarrow> v) = JInt n"
    using assms(3) by simp
  show ?thesis
    by (simp add: get_access_token_def s assms(2) e now_def Let_def datetime_add_def
                  expiry_in_range_def)
qed

text \<open>
  C8, amended. A token refresh that gets no response or a status other than 200 returns
  failure and leaves the whole state of the client as it was: it clears nothing, so the
  test of \<^verbatim>\<open>ensure_valid_token\<close> asks for a refresh afterwards exactly when it asked for
  one before. A refresh answered with status 200, an access token and \<^verbatim>\<open>expires_in\<close> of
  \<open>n\<close> seconds (3600 when the answer has none) succeeds and sets the expiry to the clock
  reading plus \<open>n\<close> seconds when \<^verbatim>\<open>timedelta\<close> and \<^verbatim>\<open>datetime\<close> can hold it; when they
  cannot it returns failure, with the new access token stored and the expiry as it was.
\<close>

theorem get_access_token_outcomes:
  "(refused (refresh_outcome a w) \<longrightarrow>
      \<not> fst (get_access_token a w) \<and>
      fst (snd (get_access_token a w)) = a \<and>
      (\<forall>t. needs_refresh (fst (snd (get_access_token a w))) t = needs_refresh a t)) \<and>
   (refresh_outcome a w = Response 200 (Some (JObj kvs)) \<and>
    map_of kvs ''access_token'' = Some tok \<and>
    dict_get (JObj kvs) ''expires_in'' (JInt 3600) = JInt n \<longrightarrow>
      (expiry_in_range (clock w (ticks w)) n \<longrightarrow>
         fst (get_access_token a w) \<and>
         access_token (fst (snd (get_access_token a w))) = tok \<and>
         token_expires_at (fst (snd (get_access_token a w)))
           = Some (clock w (ticks w) + n * 1000000)) \<and>
      (\<not> expiry_in_range (clock w (ticks w)) n \<longrightarrow>
         \<not> fst (get_access_token a w) \<and>
         access_token (fst (snd (get_access_token a w))) = tok \<and>
         token_expires_at (fst (snd (get_access_token a w))) = token_expires_at a))"
proof (intro conjI impI)
  assume r: "refused (refresh_outcome a w)"
  show "\<not> fst (get_access_token a w)"
    by (simp add: get_access_token_refused [OF r])
  show "fst (snd (get_access_token a w)) = a"
    by (simp add: get_access_token_refused [OF r])
  show "\<forall>t. needs_refresh (fst (snd (get_access_token a w))) t = needs_refresh a t"
    by (simp add: get_access_token_refused [OF r])
next
  assume g: "refresh_outcome a w = Response 200 (Some (JObj kvs)) \<and>
    map_of kvs ''access_token'' = Some tok \<and>
    dict_get (JObj kvs) ''expires_in'' (JInt 3600) = JInt n"
  then have eq: "get_access_token a w =
           (if expiry_in_range (clock w (ticks w)) n
            then (True, a\<lparr>access_token := tok,
                           token_expires_at := Some (clock w (ticks w) + n * 1000000)\<rparr>,
                  snd (now (snd (send (PostTokenRefresh (refresh_token a)) w))))
            else (False, a\<lparr>access_token := tok\<rparr>,
                  snd (now (snd (send (PostTokenRefresh (refresh_token a)) w)))))"
    using get_access_token_granted [of a w kvs tok n] by blast
  {
    assume i: "expiry_in_range (clock w (ticks w)) n"
    show "fst (get_access_token a w)" by (simp add: eq i)
    show "access_token (fst (snd (get_access_token a w))) = tok" by (simp add: eq i)
    show "token_expires_at (fst (snd (get_access_token a w)))
            = Some (clock w (ticks w) + n * 1000000)" by (simp add: eq i)
  }
  {
    assume o: "\<not> expiry_in_range (clock w (ticks w)) n"
    show "\<not> fst (get_access_token a w)" by (simp add: eq o)
    show "access_token (fst (snd (get_access_token a w))) = tok" by (simp add: eq o)
    show "token_expires_at (fst (snd (get_access_token a w))) = token_expires_at a"
      by (simp add: eq o)
  }
qed

theorem get_access_token_outcomes_witness:
  "refused (refresh_outcome (init_api ''R'') refusing_world) \<and>
   \<not> fst (get_access_token (init_api ''R'') refusing_world) \<and>
   fst (snd (get_access_token (init_api ''R'') refusing_world)) = init_api ''R'' \<and>
   expiry_in_range (clock (world0 JNull) (ticks (world0 JNull))) 3600 \<and>
   fst (get_access_token (init_api ''R'') (world0 JNull)) \<and>
   access_token (fst (snd (get_access_token (init_api ''R'') (world0 JNull)))) = JStr ''tok'' \<and>
   token_expires_at (fst (snd (get_access_token (init_api ''R'') (world0 JNull))))
     = Some 3600000000 \<and>
   \<not> expiry_in_range (clock endless_world (ticks endless_world)) 1000000000000000000 \<and>
   \<not> fst (get_access_token fresh_token_api endless_world) \<and>
   access_token (fst (snd (get_access_token fresh_token_api endless_world))) = JStr ''new'' \<and>
   token_expires_at (fst (snd (get_access_token fresh_token_api endless_world)))
     = Some 3600000000"
proof -
  have r: "refused (refresh_outcome (init_api ''R'') refusing_world)"
    by (simp add: refresh_outcome_def refusing_world_def)
  have s: "refresh_outcome (init_api ''R'') (world0 JNull)
             = Response 200 (Some (JObj [(''access_token'', JStr ''tok''), (''expires_in'', JInt 3600)]))
           \<and> map_of [(''access_token'', JStr ''tok''), (''expires_in'', JInt 3600)] ''access_token''
             = Some (JStr ''tok'')
           \<and> dict_get (JObj [(''access_token'', JStr ''tok''), (''expires_in'', JInt 3600)])
                ''expires_in'' (JInt 3600) = JInt 3600"
    by (simp add: refresh_outcome_def world0_def server_def token_reply_def init_api_def)
  have i: "expiry_in_range (clock (world0 JNull) (ticks (world0 JNull))) 3600"
    by (simp add: expiry_in_range_def world0_def datetime_min_def datetime_end_def)
  have c: "clock (world0 JNull) (ticks (world0 JNull)) + 3600 * 1000000 = 3600000000"
    by (simp add: world0_def)
  have l: "refresh_outcome fresh_token_api endless_world
             = Response 200 (Some (JObj [(''access_token'', JStr ''new''),
                                         (''expires_in'', JInt 1000000000000000000)]))
           \<and> map_of [(''access_token'', JStr ''new''), (''expires_in'', JInt 1000000000000000000)]
                ''access_token'' = Some (JStr ''new'')
           \<and> dict_get (JObj [(''access_token'', JStr ''new''),
                             (''expires_in'', JInt 1000000000000000000)])
                ''expires_in'' (JInt 3600) = JInt 1000000000000000000"
    by (simp add: refresh_outcome_def endless_world_def)
  have o: "\<not> expiry_in_range (clock endless_world (ticks endless_world)) 1000000000000000000"
    by (simp add: expiry_in_range_def)
  have x: "token_expires_at fresh_token_api = Some 3600000000"
    by (simp add: fresh_token_api_def)
  note t1 = get_access_token_outcomes [where a = "init_api ''R''" and w = refusing_world]
  note t2 = get_access_token_outcomes [where a = "init_api ''R''" and w = "world0 JNull" and kvs = "[(''access_token'', JStr ''tok''), (''expires_in'', JInt 3600)]" and tok = "JStr ''tok''" and n = 3600]
  note t3 = get_access_token_outcomes [where a = fresh_token_api and w = endless_world and kvs = "[(''access_token'', JStr ''new''), (''expires_in'', JInt 1000000000000000000)]" and tok = "JStr ''new''" and n = 1000000000000000000]
  from t1 r have f: "\<not> fst (get_access_token (init_api ''R'') refusing_world) \<and>
      fst (snd (get_access_token (init_api ''R'') refusing_world)) = init_api ''R''"
    by blast
  from t2 s i have g: "fst (get_access_token (init_api ''R'') (world0 JNull)) \<and>
      access_token (fst (snd (get_access_token (init_api ''R'') (world0 JNull)))) = JStr ''tok'' \<and>
      token_expires_at (fst (snd (get_access_token (init_api ''R'') (world0 JNull))))
        = Some (clock (world0 JNull) (ticks (world0 JNull)) + 3600 * 1000000)"
    by blast
  from t3 l o have h: "\<not> fst (get_access_token fresh_token_api endless_world) \<and>
      access_token (fst (snd (get_access_token fresh_token_api endless_world))) = JStr ''new'' \<and>
      token_expires_at (fst (snd (get_access_token fresh_token_api endless_world)))
        = token_expires_at fresh_token_api"
    by blast
  from g have g': "token_expires_at (fst (snd (get_access_token (init_api ''R'') (world0 JNull))))
        = Some 3600000000"
    by (simp only: c)
  from h have h': "token_expires_at (fst (snd (get_access_token fresh_token_api endless_world)))
        = Some 3600000000"
    by (simp only: x)
  from r f i g g' o h h' show ?thesis by blast
qed

subsection \<open>Default room\<close>



lemma get_access_token_keeps_rooms:
  "rooms (fst (snd (get_access_token a w))) = rooms a \<and>
   default_room_id (fst (snd (get_access_token a w))) = default_room_id a"
  by (auto simp: get_access_token_def Let_def
           split: prod.splits http_outcome.splits option.splits sum.splits)

lemma ensure_valid_token_keeps_rooms:
  "rooms (fst (snd (ensure_valid_token a w))) = rooms a \<and>
   default_room_id (fst (snd (ensure_valid_token a w))) = default_room_id a"
  by (auto simp: ensure_valid_token_def get_access_token_keeps_rooms Let_def
           split: prod.splits option.splits)


lemma store_rooms_result:
  "store_rooms lw r a w =
     (case fst (set_default_room lw (a\<lparr>rooms := r\<rparr>)) of Inl e \<Rightarrow> False | Inr b \<Rightarrow> b,
      snd (set_default_room lw (a\<lparr>rooms := r\<rparr>)), w)"
  by (simp add: store_rooms_def split: prod.splits sum.splits)





subsection \<open>Room-name resolution\<close>





subsection \<open>Requests sent\<close>

lemma get_access_token_world:
  "\<exists>rs. requests (snd (snd (get_access_token a w))) = requests w @ rs \<and>
        list_all is_session_request rs"
  by (simp add: get_access_token_requests is_session_request_def)

lemma get_access_token_env:
  "http (snd (snd (get_access_token a w))) = http w \<and>
   clock (snd (snd (get_access_token a w))) = clock w \<and>
   refresh_token (fst (snd (get_access_token a w))) = refresh_token a"
  by (auto simp: get_access_token_def send_def now_def Let_def
           split: prod.splits http_outcome.splits option.splits sum.splits)

lemma ensure_valid_token_requests:
  "requests (snd (snd (ensure_valid_token a w))) =
     requests w @ (if needs_refresh a (clock w (ticks w))
                   then [PostTokenRefresh (refresh_token a)] else [])"
  by (auto simp: needs_refresh_def ensure_valid_token_def get_access_token_requests now_def Let_def
           split: option.splits)

lemma ensure_valid_token_world:
  "\<exists>rs. requests (snd (snd (ensure_valid_token a w))) = requests w @ rs \<and>
        list_all is_session_request rs"
  by (simp add: ensure_valid_token_requests is_session_request_def)

lemma ensure_valid_token_env:
  "http (snd (snd (ensure_valid_token a w))) = http w \<and>
   clock (snd (snd (ensure_valid_token a w))) = clock w \<and>
   refresh_token (fst (snd (ensure_valid_token a w))) = refresh_token a"
  by (auto simp: ensure_valid_token_def get_access_token_env now_def Let_def
           split: option.splits)

lemma store_rooms_world: "snd (snd (store_rooms lw r a w)) = w"
  by (simp add: store_rooms_result)

lemma fetch_rooms_world:
  "\<exists>rs. requests (snd (snd (fetch_rooms lw a w))) = requests w @ rs \<and>
        list_all is_session_request rs"
proof -
  obtain ok a1 w1 where e: "ensure_valid_token a w = (ok, a1, w1)"
    by (cases "ensure_valid_token a w") auto
  from ensure_valid_token_world [of a w] obtain rs where
    rs: "requests w1 = requests w @ rs" "list_all is_session_request rs"
    by (auto simp: e)
  have "requests (snd (snd (fetch_rooms lw a w))) = requests w1 \<or>
        requests (snd (snd (fetch_rooms lw a w))) = requests w1 @ [GetRooms (access_token a1)]"
    by (auto simp: fetch_rooms_def e send_def store_rooms_world Let_def
             split: prod.splits http_outcome.splits option.splits json.splits)
  then show ?thesis
  proof
    assume "requests (snd (snd (fetch_rooms lw a w))) = requests w1"
    with rs show ?thesis by auto
  next
    assume "requests (snd (snd (fetch_rooms lw a w))) = requests w1 @ [GetRooms (access_token a1)]"
    with rs have "requests (snd (snd (fetch_rooms lw a w))) = requests w @ (rs @ [GetRooms (access_token a1)])
        \<and> list_all is_session_request (rs @ [GetRooms (access_token a1)])"
      by (simp add: is_session_request_def)
    then show ?thesis by blast
  qed
qed

lemma initialize_world:
  "\<exists>rs. requests (snd (snd (initialize lw a w))) = requests w @ rs \<and>
        list_all is_session_request rs"
proof -
  obtain ok a1 w1 where g: "get_access_token a w = (ok, a1, w1)"
    by (cases "get_access_token a w") auto
  from get_access_token_world [of a w] obtain rs where
    rs: "requests w1 = requests w @ rs" "list_all is_session_request rs"
    by (auto simp: g)
  show ?thesis
  proof (cases ok)
    case False
    with rs show ?thesis by (auto simp: initialize_def g)
  next
    case True
    obtain ok2 a2 w2 where f: "fetch_rooms lw a1 w1 = (ok2, a2, w2)"
      by (cases "fetch_rooms lw a1 w1") auto
    from fetch_rooms_world [of lw a1 w1] obtain rs2 where
      rs2: "requests w2 = requests w1 @ rs2" "list_all is_session_request rs2"
      by (auto simp: f)
    have "snd (snd (initialize lw a w)) = w2"
      by (simp add: initialize_def g True f split: sum.splits)
    with rs rs2 have "requests (snd (snd (initialize lw a w))) = requests w @ (rs @ rs2)
        \<and> list_all is_session_request (rs @ rs2)"
      by simp
    then show ?thesis by blast
  qed
qed

subsection \<open>Unknown motion name\<close>

theorem unknown_motion_counterexample:
  "map_of PREDEFINED_MOTIONS ''dance'' = None \<and>
   requests (world0 (JList three_rooms)) = [] \<and>
   requests (snd (call_tool ascii_lower ''R'' ''bocco_send_motion'' dance_arguments (world0 (JList three_rooms))))
     = [PostTokenRefresh ''R'', GetRooms (JStr ''tok'')]"
  by code_simp

text \<open>
  C4, amended. A call of the motion tool with a string that is no key of the catalog
  sends no request addressed to a room: the world it leaves is the one the
  initialisation of the session leaves, whose requests are token refreshes and room
  listings only; and when the initialisation succeeds the text returned lists exactly
  the keys of the catalog.
\<close>

theorem unknown_motion_sends_no_motion:
  assumes "arguments ''motion_name'' = Some (JStr m)"
      and "map_of PREDEFINED_MOTIONS m = None"
  shows "snd (call_tool lw R ''bocco_send_motion'' arguments w)
           = snd (snd (initialize lw (init_api R) w)) \<and>
         (\<exists>rs. requests (snd (call_tool lw R ''bocco_send_motion'' arguments w)) = requests w @ rs \<and>
               list_all is_session_request rs) \<and>
         (fst (initialize lw (init_api R) w) = Inr () \<longrightarrow>
            fst (call_tool lw R ''bocco_send_motion'' arguments w)
              = UnknownMotion (JStr m) [''head_shake'', ''simple_nod''])"
proof -
  obtain r a w1 where i: "initialize lw (init_api R) w = (r, a, w1)"
    by (cases "initialize lw (init_api R) w") auto
  have t: "tool_send_motion lw arguments a w1
             = (Inr (UnknownMotion (JStr m) [''head_shake'', ''simple_nod'']), w1)"
    using assms by (simp add: tool_send_motion_def PREDEFINED_MOTIONS_def)
  have c: "call_tool lw R ''bocco_send_motion'' arguments w =
             (case r of Inl e \<Rightarrow> DispatchError e
                      | Inr u \<Rightarrow> UnknownMotion (JStr m) [''head_shake'', ''simple_nod''], w1)"
    by (simp add: call_tool_def i t caught_def split: sum.splits)
  have w: "snd (call_tool lw R ''bocco_send_motion'' arguments w)
             = snd (snd (initialize lw (init_api R) w))"
    by (simp add: c i)
  moreover from initialize_world [of lw "init_api R" w]
  have "\<exists>rs. requests (snd (call_tool lw R ''bocco_send_motion'' arguments w)) = requests w @ rs \<and>
             list_all is_session_request rs"
    by (simp add: w)
  moreover have "fst (initialize lw (init_api R) w) = Inr () \<longrightarrow>
            fst (call_tool lw R ''bocco_send_motion'' arguments w)
              = UnknownMotion (JStr m) [''head_shake'', ''simple_nod'']"
    by (simp add: c i)
  ultimately show ?thesis by blast
qed

theorem unknown_motion_sends_no_motion_witness:
  "dance_arguments ''motion_name'' = Some (JStr ''dance'') \<and>
   map_of PREDEFINED_MOTIONS ''dance'' = None \<and>
   fst (initialize ascii_lower (init_api ''R'') (world0 (JList three_rooms))) = Inr () \<and>
   fst (call_tool ascii_lower ''R'' ''bocco_send_motion'' dance_arguments (world0 (JList three_rooms)))
     = UnknownMotion (JStr ''dance'') [''head_shake'', ''simple_nod''] \<and>
   snd (call_tool ascii_lower ''R'' ''bocco_send_motion'' dance_arguments (world0 (JList three_rooms)))
     = snd (snd (initialize ascii_lower (init_api ''R'') (world0 (JList three_rooms))))"
proof -
  have a: "dance_arguments ''motion_name'' = Some (JStr ''dance'')"
    by (simp add: dance_arguments_def)
  have k: "map_of PREDEFINED_MOTIONS ''dance'' = None"
    by (simp add: PREDEFINED_MOTIONS_def)
  have i: "fst (initialize ascii_lower (init_api ''R'') (world0 (JList three_rooms))) = Inr ()"
    by code_simp
  from unknown_motion_sends_no_motion
         [where lw = ascii_lower and arguments = dance_arguments and m = "''dance''" and R = "''R''"
            and w = "world0 (JList three_rooms)"] a k i
  show ?thesis by blast
qed

subsection \<open>Sending without a room\<close>




subsection \<open>Results of the client operations\<close>






subsection \<open>Room not found\<close>

text \<open>
  C7. With the three rooms Office, Kitchen Assistant and Back kitchen and the room name
  \<open>garage\<close>, the message tool returns the text that lists the room names; the two motion
  tools return the text that holds the room name asked for and nothing else. None of the
  three raises.
\<close>

theorem room_not_found_texts:
  "fst (call_tool ascii_lower ''R'' ''bocco_send_message'' garage_message (world0 (JList kitchen_rooms)))
     = RoomNotFoundListing (JStr ''garage'')
         [JStr ''Office'', JStr ''Kitchen Assistant'', JStr ''Back kitchen''] \<and>
   fst (call_tool ascii_lower ''R'' ''bocco_send_motion'' garage_motion (world0 (JList kitchen_rooms)))
     = RoomNotFound (JStr ''garage'') \<and>
   fst (call_tool ascii_lower ''R'' ''bocco_custom_motion'' garage_custom (world0 (JList kitchen_rooms)))
     = RoomNotFound (JStr ''garage'')"
  by code_simp

subsection \<open>Room information\<close>







subsection \<open>Empty room name\<close>

lemma session_addressed: "list_all is_session_request rs \<Longrightarrow> list_all (addressed_to d) rs"
  by (induction rs) (auto simp: is_session_request_def addressed_to_def)

lemma resolve_room_falsy: "\<not> truthy rn \<Longrightarrow> resolve_room lw a rn = Inr (Resolved JNull)"
  by (simp add: resolve_room_def)

lemma send_message_addressed:
  "\<exists>rs. requests (snd (snd (send_message msg JNull a w))) = requests w @ rs \<and>
        list_all (addressed_to (default_room_id a)) rs"
proof -
  obtain ok a1 w1 where e: "ensure_valid_token a w = (ok, a1, w1)"
    by (cases "ensure_valid_token a w") auto
  from ensure_valid_token_world [of a w] obtain rs where
    rs: "requests w1 = requests w @ rs" "list_all is_session_request rs"
    by (auto simp: e)
  have d: "default_room_id a1 = default_room_id a"
    using ensure_valid_token_keeps_rooms [of a w] by (simp add: e)
  let ?p = "PostMessage (default_room_id a) msg (clock w1 (ticks w1) div 1000) (access_token a1)"
  have "requests (snd (snd (send_message msg JNull a w))) = requests w1 \<or>
        requests (snd (snd (send_message msg JNull a w))) = requests w1 @ [?p]"
    by (auto simp: send_message_def e d py_or_def now_def send_def Let_def
             split: prod.splits http_outcome.splits option.splits)
  then show ?thesis
  proof
    assume "requests (snd (snd (send_message msg JNull a w))) = requests w1"
    with rs session_addressed [OF rs(2)] show ?thesis by auto
  next
    assume "requests (snd (snd (send_message msg JNull a w))) = requests w1 @ [?p]"
    with rs session_addressed [OF rs(2), of "default_room_id a"]
    have "requests (snd (snd (send_message msg JNull a w))) = requests w @ (rs @ [?p]) \<and>
          list_all (addressed_to (default_room_id a)) (rs @ [?p])"
      by (simp add: addressed_to_def)
    then show ?thesis by blast
  qed
qed

lemma send_motion_addressed:
  "\<exists>rs. requests (snd (snd (send_motion doc JNull a w))) = requests w @ rs \<and>
        list_all (addressed_to (default_room_id a)) rs"
proof -
  obtain ok a1 w1 where e: "ensure_valid_token a w = (ok, a1, w1)"
    by (cases "ensure_valid_token a w") auto
  from ensure_valid_token_world [of a w] obtain rs where
    rs: "requests w1 = requests w @ rs" "list_all is_session_request rs"
    by (auto simp: e)
  have d: "default_room_id a1 = default_room_id a"
    using ensure_valid_token_keeps_rooms [of a w] by (simp add: e)
  let ?p = "PostMotion (default_room_id a) doc (access_token a1)"
  have "requests (snd (snd (send_motion doc JNull a w))) = requests w1 \<or>
        requests (snd (snd (send_motion doc JNull a w))) = requests w1 @ [?p]"
    by (auto simp: send_motion_def e d py_or_def send_def Let_def
             split: prod.splits http_outcome.splits option.splits)
  then show ?thesis
  proof
    assume "requests (snd (snd (send_motion doc JNull a w))) = requests w1"
    with rs session_addressed [OF rs(2)] show ?thesis by auto
  next
    assume "requests (snd (snd (send_motion doc JNull a w))) = requests w1 @ [?p]"
    with rs session_addressed [OF rs(2), of "default_room_id a"]
    have "requests (snd (snd (send_motion doc JNull a w))) = requests w @ (rs @ [?p]) \<and>
          list_all (addressed_to (default_room_id a)) (rs @ [?p])"
      by (simp add: addressed_to_def)
    then show ?thesis by blast
  qed
qed

lemma get_rooms_info_addressed:
  "\<exists>rs. requests (snd (snd (get_rooms_info lw a w))) = requests w @ rs \<and>
        list_all (addressed_to d) rs"
proof (cases "truthy (rooms a)")
  case True
  then have "snd (snd (get_rooms_info lw a w)) = w"
    by (simp add: get_rooms_info_def split: sum.splits)
  then show ?thesis by simp
next
  case False
  then have "snd (snd (get_rooms_info lw a w)) = snd (snd (fetch_rooms lw a w))"
    by (cases "fetch_rooms lw a w") (simp add: get_rooms_info_def split: sum.splits)
  with fetch_rooms_world [of lw a w] session_addressed show ?thesis
    by auto
qed


lemma caught_snd: "snd (caught x) = snd x"
  by (cases x) (auto simp: caught_def split: sum.splits)

lemma tool_send_message_empty:
  assumes "arguments ''room_name'' = Some (JStr [])"
  shows "\<not> is_room_not_found (fst (caught (tool_send_message lw arguments a w))) \<and>
         (\<exists>rs. requests (snd (tool_send_message lw arguments a w)) = requests w @ rs \<and>
               list_all (addressed_to (default_room_id a)) rs)"
proof (cases "arguments ''message''")
  case None
  then show ?thesis
    by (simp add: tool_send_message_def caught_def)
next
  case (Some message)
  obtain r a1 w1 where s: "send_message message JNull a w = (r, a1, w1)"
    by (cases "send_message message JNull a w") auto
  have t: "tool_send_message lw arguments a w =
             (case r of
                Inl e \<Rightarrow> Inl e
              | Inr result \<Rightarrow>
                  (case used_room_name a1 result of
                     Inl e \<Rightarrow> Inl e
                   | Inr used \<Rightarrow> Inr (MessageSent message used (dict_get result ''status'' JNull))),
              w1)"
    using assms by (simp add: tool_send_message_def Some resolve_room_def s split: sum.splits)
  have "\<not> is_room_not_found (fst (caught (tool_send_message lw arguments a w)))"
    by (simp add: t caught_def split: sum.splits)
  moreover from send_message_addressed [of message a w]
  have "\<exists>rs. requests (snd (tool_send_message lw arguments a w)) = requests w @ rs \<and>
             list_all (addressed_to (default_room_id a)) rs"
    by (simp add: t s)
  ultimately show ?thesis by blast
qed

lemma tool_send_motion_empty:
  assumes "arguments ''room_name'' = Some (JStr [])"
  shows "\<not> is_room_not_found (fst (caught (tool_send_motion lw arguments a w))) \<and>
         (\<exists>rs. requests (snd (tool_send_motion lw arguments a w)) = requests w @ rs \<and>
               list_all (addressed_to (default_room_id a)) rs)"
proof (cases "arguments ''motion_name''")
  case None
  then show ?thesis
    by (simp add: tool_send_motion_def caught_def)
next
  case (Some motion_name)
  show ?thesis
  proof (cases "in_catalog motion_name")
    case (Inl e)
    then show ?thesis
      by (simp add: tool_send_motion_def Some caught_def)
  next
    case (Inr found)
    show ?thesis
    proof (cases found)
      case None
      then show ?thesis
        by (simp add: tool_send_motion_def Some Inr caught_def)
    next
      case (Some motion_data)
      obtain r a1 w1 where s: "send_motion motion_data JNull a w = (r, a1, w1)"
        by (cases "send_motion motion_data JNull a w") auto
      have t: "tool_send_motion lw arguments a w =
                 (case r of
                    Inl e \<Rightarrow> Inl e
                  | Inr result \<Rightarrow>
                      (case used_room_name a1 result of
                         Inl e \<Rightarrow> Inl e
                       | Inr used \<Rightarrow>
                           Inr (MotionDone motion_name used (dict_get result ''status'' JNull))),
                  w1)"
        using assms \<open>arguments ''motion_name'' = Some motion_name\<close>
        by (simp add: tool_send_motion_def Inr Some resolve_room_def s split: sum.splits)
      have "\<not> is_room_not_found (fst (caught (tool_send_motion lw arguments a w)))"
        by (simp add: t caught_def split: sum.splits)
      moreover from send_motion_addressed [of motion_data a w]
      have "\<exists>rs. requests (snd (tool_send_motion lw arguments a w)) = requests w @ rs \<and>
                 list_all (addressed_to (default_room_id a)) rs"
        by (simp add: t s)
      ultimately show ?thesis by blast
    qed
  qed
qed

lemma tool_custom_motion_empty:
  assumes "arguments ''room_name'' = Some (JStr [])"
  shows "\<not> is_room_not_found (fst (caught (tool_custom_motion lw arguments a w))) \<and>
         (\<exists>rs. requests (snd (tool_custom_motion lw arguments a w)) = requests w @ rs \<and>
               list_all (addressed_to (default_room_id a)) rs)"
proof (cases "arguments ''motion_json''")
  case None
  then show ?thesis
    by (simp add: tool_custom_motion_def caught_def)
next
  case (Some motion_json)
  obtain r a1 w1 where s: "send_motion (CustomDoc motion_json) JNull a w = (r, a1, w1)"
    by (cases "send_motion (CustomDoc motion_json) JNull a w") auto
  have t: "tool_custom_motion lw arguments a w =
             (case r of
                Inl e \<Rightarrow> Inl e
              | Inr result \<Rightarrow> Inr (CustomMotionSent (dict_get result ''status'' JNull)),
              w1)"
    using assms by (simp add: tool_custom_motion_def Some resolve_room_def s split: sum.splits)
  have "\<not> is_room_not_found (fst (caught (tool_custom_motion lw arguments a w)))"
    by (simp add: t caught_def split: sum.splits)
  moreover from send_motion_addressed [of "CustomDoc motion_json" a w]
  have "\<exists>rs. requests (snd (tool_custom_motion lw arguments a w)) = requests w @ rs \<and>
             list_all (addressed_to (default_room_id a)) rs"
    by (simp add: t s)
  ultimately show ?thesis by blast
qed

lemma tool_rooms_any:
  "\<not> is_room_not_found (fst (caught (tool_get_rooms lw a w))) \<and>
   (\<exists>rs. requests (snd (tool_get_rooms lw a w)) = requests w @ rs \<and>
         list_all (addressed_to d) rs) \<and>
   \<not> is_room_not_found (fst (caught (tool_list_rooms lw a w))) \<and>
   (\<exists>rs. requests (snd (tool_list_rooms lw a w)) = requests w @ rs \<and>
         list_all (addressed_to d) rs)"
proof -
  obtain r a1 w1 where g: "get_rooms_info lw a w = (r, a1, w1)"
    by (cases "get_rooms_info lw a w") auto
  have w1: "snd (tool_get_rooms lw a w) = w1" "snd (tool_list_rooms lw a w) = w1"
    by (auto simp: tool_get_rooms_def tool_list_rooms_def g Let_def split: sum.splits)
  have "\<not> is_room_not_found (fst (caught (tool_get_rooms lw a w)))"
    by (simp add: tool_get_rooms_def g caught_def split: sum.splits)
  moreover have "\<not> is_room_not_found (fst (caught (tool_list_rooms lw a w)))"
    by (simp add: tool_list_rooms_def g caught_def Let_def split: sum.splits)
  moreover from get_rooms_info_addressed [of lw a w d]
  have "\<exists>rs. requests w1 = requests w @ rs \<and> list_all (addressed_to d) rs"
    by (simp add: g)
  ultimately show ?thesis by (simp add: w1)
qed


lemma tools_empty_same:
  "tool_send_message lw (arguments(''room_name'' \<mapsto> JStr [])) a w
     = tool_send_message lw (arguments(''room_name'' := None)) a w \<and>
   tool_send_motion lw (arguments(''room_name'' \<mapsto> JStr [])) a w
     = tool_send_motion lw (arguments(''room_name'' := None)) a w \<and>
   tool_custom_motion lw (arguments(''room_name'' \<mapsto> JStr [])) a w
     = tool_custom_motion lw (arguments(''room_name'' := None)) a w"
proof -
  have r: "resolve_room lw a (JStr []) = Inr (Resolved JNull)"
           "resolve_room lw a JNull = Inr (Resolved JNull)"
    by (simp_all add: resolve_room_def)
  show ?thesis
    by (simp add: tool_send_message_def tool_send_motion_def tool_custom_motion_def r Let_def
             cong: option.case_cong sum.case_cong)
qed

lemma empty_room_name_general:
  "call_tool lw R name (arguments(''room_name'' \<mapsto> JStr [])) w
     = call_tool lw R name (arguments(''room_name'' := None)) w \<and>
   \<not> is_room_not_found (fst (call_tool lw R name (arguments(''room_name'' \<mapsto> JStr [])) w)) \<and>
   (\<exists>rs. requests (snd (call_tool lw R name (arguments(''room_name'' \<mapsto> JStr [])) w))
           = requests (snd (snd (initialize lw (init_api R) w))) @ rs \<and>
         list_all (addressed_to (default_room_id (fst (snd (initialize lw (init_api R) w))))) rs)"
proof -
  let ?args = "arguments(''room_name'' \<mapsto> JStr [])"
  obtain r a w1 where i: "initialize lw (init_api R) w = (r, a, w1)"
    by (cases "initialize lw (init_api R) w") auto
  have same: "call_tool lw R name ?args w = call_tool lw R name (arguments(''room_name'' := None)) w"
    by (simp add: call_tool_def i tools_empty_same split: sum.splits)
  have rn: "?args ''room_name'' = Some (JStr [])" by simp
  show ?thesis
  proof (cases r)
    case (Inl e)
    then have d: "call_tool lw R name ?args w = (DispatchError e, w1)"
      by (simp add: call_tool_def i)
    have "\<not> is_room_not_found (fst (call_tool lw R name ?args w))"
      by (simp add: d)
    moreover have "\<exists>rs. requests (snd (call_tool lw R name ?args w))
           = requests (snd (snd (initialize lw (init_api R) w))) @ rs \<and>
         list_all (addressed_to (default_room_id (fst (snd (initialize lw (init_api R) w))))) rs"
      by (simp add: d i)
    ultimately show ?thesis using same by blast
  next
    case (Inr u)
    let ?branch =
      "if name = ''bocco_send_message'' then tool_send_message lw ?args a w1
       else if name = ''bocco_send_motion'' then tool_send_motion lw ?args a w1
       else if name = ''bocco_custom_motion'' then tool_custom_motion lw ?args a w1
       else if name = ''bocco_get_rooms'' then tool_get_rooms lw a w1
       else if name = ''bocco_list_rooms'' then tool_list_rooms lw a w1
       else (Inr (UnknownTool name), w1)"
    have c: "call_tool lw R name ?args w = caught ?branch"
      by (simp add: call_tool_def i Inr)
    have b: "\<not> is_room_not_found (fst (caught ?branch)) \<and>
          (\<exists>rs. requests (snd ?branch) = requests w1 @ rs \<and>
                list_all (addressed_to (default_room_id a)) rs)"
      using tool_send_message_empty [where lw = lw and arguments = "?args" and a = a and w = w1, OF rn]
            tool_send_motion_empty [where lw = lw and arguments = "?args" and a = a and w = w1, OF rn]
            tool_custom_motion_empty [where lw = lw and arguments = "?args" and a = a and w = w1, OF rn]
            tool_rooms_any [of lw a w1 "default_room_id a"]
      by (simp add: caught_def)
    have i1: "snd (snd (initialize lw (init_api R) w)) = w1"
      and i2: "fst (snd (initialize lw (init_api R) w)) = a"
      by (simp_all add: i)
    from b have "\<not> is_room_not_found (fst (call_tool lw R name ?args w))"
      unfolding c by blast
    moreover from b have "\<exists>rs. requests (snd (call_tool lw R name ?args w))
           = requests (snd (snd (initialize lw (init_api R) w))) @ rs \<and>
         list_all (addressed_to (default_room_id (fst (snd (initialize lw (init_api R) w))))) rs"
      unfolding c caught_snd i1 i2 by blast
    ultimately show ?thesis using same by blast
  qed
qed

lemma send_message_default_request:
  assumes "ensure_valid_token a w = (True, a1, w1)" and "truthy (default_room_id a)"
  shows "requests (snd (snd (send_message msg JNull a w))) =
           requests w1 @ [PostMessage (default_room_id a) msg (clock w1 (ticks w1) div 1000)
                            (access_token a1)]"
proof -
  have d: "default_room_id a1 = default_room_id a"
    using ensure_valid_token_keeps_rooms [of a w] by (simp add: assms(1))
  show ?thesis
    using assms(2)
    by (simp add: send_message_def assms(1) d py_or_def now_def send_def Let_def
             split: http_outcome.splits option.splits)
qed

lemma send_motion_default_request:
  assumes "ensure_valid_token a w = (True, a1, w1)" and "truthy (default_room_id a)"
  shows "requests (snd (snd (send_motion doc JNull a w))) =
           requests w1 @ [PostMotion (default_room_id a) doc (access_token a1)]"
proof -
  have d: "default_room_id a1 = default_room_id a"
    using ensure_valid_token_keeps_rooms [of a w] by (simp add: assms(1))
  show ?thesis
    using assms(2)
    by (simp add: send_motion_def assms(1) d py_or_def send_def Let_def
             split: http_outcome.splits option.splits)
qed

lemma tool_send_message_world:
  assumes "arguments ''room_name'' = Some (JStr [])" and "arguments ''message'' = Some msg"
  shows "snd (tool_send_message lw arguments a w) = snd (snd (send_message msg JNull a w))"
  using assms
  by (cases "send_message msg JNull a w")
     (auto simp: tool_send_message_def resolve_room_def split: sum.splits)

lemma tool_send_motion_world:
  assumes "arguments ''room_name'' = Some (JStr [])"
      and "arguments ''motion_name'' = Some (JStr m)"
      and "map_of PREDEFINED_MOTIONS m = Some doc"
  shows "snd (tool_send_motion lw arguments a w) = snd (snd (send_motion doc JNull a w))"
  using assms
  by (cases "send_motion doc JNull a w")
     (auto simp: tool_send_motion_def resolve_room_def split: sum.splits)

lemma tool_custom_motion_world:
  assumes "arguments ''room_name'' = Some (JStr [])" and "arguments ''motion_json'' = Some mj"
  shows "snd (tool_custom_motion lw arguments a w)
           = snd (snd (send_motion (CustomDoc mj) JNull a w))"
  using assms
  by (cases "send_motion (CustomDoc mj) JNull a w")
     (auto simp: tool_custom_motion_def resolve_room_def split: sum.splits)

lemma triple_collapse: "fst x = v \<Longrightarrow> x = (v, fst (snd x), snd (snd x))"
  by (cases x) auto

text \<open>
  C10. For every tool, a call with the empty string as room name returns the same text and
  leaves the same world as the call without a room name; the text is never one of the two
  room-not-found texts; and every request sent after the initialisation of the session is
  addressed to the default room of the session or to no room. When the session is
  initialised, its token check passes and it has a default room, each of the three tools
  that take a room name sends exactly its one post, with the payload of the call, to that
  default room.
\<close>

theorem empty_room_name_as_omitted:
  "call_tool lw R name (arguments(''room_name'' \<mapsto> JStr [])) w
     = call_tool lw R name (arguments(''room_name'' := None)) w \<and>
   \<not> is_room_not_found (fst (call_tool lw R name (arguments(''room_name'' \<mapsto> JStr [])) w)) \<and>
   (\<exists>rs. requests (snd (call_tool lw R name (arguments(''room_name'' \<mapsto> JStr [])) w))
           = requests (snd (snd (initialize lw (init_api R) w))) @ rs \<and>
         list_all (addressed_to (default_room_id (fst (snd (initialize lw (init_api R) w))))) rs) \<and>
   (initialize lw (init_api R) w = (Inr (), a, w1) \<and>
    ensure_valid_token a w1 = (True, a2, w2) \<and> truthy (default_room_id a) \<longrightarrow>
      (arguments ''message'' = Some msg \<longrightarrow>
         requests (snd (call_tool lw R ''bocco_send_message''
                          (arguments(''room_name'' \<mapsto> JStr [])) w))
           = requests w2 @ [PostMessage (default_room_id a) msg (clock w2 (ticks w2) div 1000)
                              (access_token a2)]) \<and>
      (arguments ''motion_name'' = Some (JStr m) \<and> map_of PREDEFINED_MOTIONS m = Some doc \<longrightarrow>
         requests (snd (call_tool lw R ''bocco_send_motion''
                          (arguments(''room_name'' \<mapsto> JStr [])) w))
           = requests w2 @ [PostMotion (default_room_id a) doc (access_token a2)]) \<and>
      (arguments ''motion_json'' = Some mj \<longrightarrow>
         requests (snd (call_tool lw R ''bocco_custom_motion''
                          (arguments(''room_name'' \<mapsto> JStr [])) w))
           = requests w2 @ [PostMotion (default_room_id a) (CustomDoc mj) (access_token a2)]))"
proof -
  let ?args = "arguments(''room_name'' \<mapsto> JStr [])"
  have rn: "?args ''room_name'' = Some (JStr [])" by simp
  have pinned:
    "(arguments ''message'' = Some msg \<longrightarrow>
         requests (snd (call_tool lw R ''bocco_send_message'' ?args w))
           = requests w2 @ [PostMessage (default_room_id a) msg (clock w2 (ticks w2) div 1000)
                              (access_token a2)]) \<and>
     (arguments ''motion_name'' = Some (JStr m) \<and> map_of PREDEFINED_MOTIONS m = Some doc \<longrightarrow>
         requests (snd (call_tool lw R ''bocco_send_motion'' ?args w))
           = requests w2 @ [PostMotion (default_room_id a) doc (access_token a2)]) \<and>
     (arguments ''motion_json'' = Some mj \<longrightarrow>
         requests (snd (call_tool lw R ''bocco_custom_motion'' ?args w))
           = requests w2 @ [PostMotion (default_room_id a) (CustomDoc mj) (access_token a2)])"
    if i: "initialize lw (init_api R) w = (Inr (), a, w1)"
      and e: "ensure_valid_token a w1 = (True, a2, w2)"
      and t: "truthy (default_room_id a)"
  proof (intro conjI impI)
    assume m: "arguments ''message'' = Some msg"
    then have "?args ''message'' = Some msg" by simp
    note tw = tool_send_message_world [OF rn this, of lw a w1]
    have "snd (call_tool lw R ''bocco_send_message'' ?args w) = snd (tool_send_message lw ?args a w1)"
      by (simp add: call_tool_def i caught_snd)
    then show "requests (snd (call_tool lw R ''bocco_send_message'' ?args w))
           = requests w2 @ [PostMessage (default_room_id a) msg (clock w2 (ticks w2) div 1000)
                              (access_token a2)]"
      by (simp only: tw send_message_default_request [OF e t])
  next
    assume m: "arguments ''motion_name'' = Some (JStr m) \<and> map_of PREDEFINED_MOTIONS m = Some doc"
    then have "?args ''motion_name'' = Some (JStr m)" and "map_of PREDEFINED_MOTIONS m = Some doc"
      by simp_all
    note tw = tool_send_motion_world [OF rn this, of lw a w1]
    have "snd (call_tool lw R ''bocco_send_motion'' ?args w) = snd (tool_send_motion lw ?args a w1)"
      by (simp add: call_tool_def i caught_snd)
    then show "requests (snd (call_tool lw R ''bocco_send_motion'' ?args w))
           = requests w2 @ [PostMotion (default_room_id a) doc (access_token a2)]"
      by (simp only: tw send_motion_default_request [OF e t])
  next
    assume m: "arguments ''motion_json'' = Some mj"
    then have "?args ''motion_json'' = Some mj" by simp
    note tw = tool_custom_motion_world [OF rn this, of lw a w1]
    have "snd (call_tool lw R ''bocco_custom_motion'' ?args w)
            = snd (tool_custom_motion lw ?args a w1)"
      by (simp add: call_tool_def i caught_snd)
    then show "requests (snd (call_tool lw R ''bocco_custom_motion'' ?args w))
           = requests w2 @ [PostMotion (default_room_id a) (CustomDoc mj) (access_token a2)]"
      by (simp only: tw send_motion_default_request [OF e t])
  qed
  from empty_room_name_general [of lw R name arguments w] pinned show ?thesis
    by blast
qed

theorem empty_room_name_as_omitted_witness:
  "call_tool ascii_lower ''R'' ''bocco_send_message'' (hi_arguments(''room_name'' \<mapsto> JStr []))
       (world0 (JList three_rooms))
     = call_tool ascii_lower ''R'' ''bocco_send_message'' (hi_arguments(''room_name'' := None))
         (world0 (JList three_rooms)) \<and>
   \<not> is_room_not_found
       (fst (call_tool ascii_lower ''R'' ''bocco_send_message''
               (hi_arguments(''room_name'' \<mapsto> JStr [])) (world0 (JList three_rooms)))) \<and>
   fst (initialize ascii_lower (init_api ''R'') (world0 (JList three_rooms))) = Inr () \<and>
   default_room_id (fst (snd (initialize ascii_lower (init_api ''R'') (world0 (JList three_rooms)))))
     = JStr ''A'' \<and>
   requests (snd (call_tool ascii_lower ''R'' ''bocco_send_message''
                    (hi_arguments(''room_name'' \<mapsto> JStr [])) (world0 (JList three_rooms))))
     = [PostTokenRefresh ''R'', GetRooms (JStr ''tok''),
        PostMessage (JStr ''A'') (JStr ''hi'') 3000 (JStr ''tok'')] \<and>
   requests (snd (call_tool ascii_lower ''R'' ''bocco_send_motion''
                    (nod_arguments(''room_name'' \<mapsto> JStr [])) (world0 (JList three_rooms))))
     = [PostTokenRefresh ''R'', GetRooms (JStr ''tok''),
        PostMotion (JStr ''A'') SimpleNodDoc (JStr ''tok'')] \<and>
   requests (snd (call_tool ascii_lower ''R'' ''bocco_custom_motion''
                    (custom_arguments(''room_name'' \<mapsto> JStr [])) (world0 (JList three_rooms))))
     = [PostTokenRefresh ''R'', GetRooms (JStr ''tok''),
        PostMotion (JStr ''A'') (CustomDoc (JObj [])) (JStr ''tok'')]"
proof -
  let ?W = "world0 (JList three_rooms)"
  let ?a = "fst (snd (initialize ascii_lower (init_api ''R'') ?W))"
  let ?w1 = "snd (snd (initialize ascii_lower (init_api ''R'') ?W))"
  let ?a2 = "fst (snd (ensure_valid_token ?a ?w1))"
  let ?w2 = "snd (snd (ensure_valid_token ?a ?w1))"
  have i0: "fst (initialize ascii_lower (init_api ''R'') ?W) = Inr ()"
    by code_simp
  have e0: "fst (ensure_valid_token ?a ?w1) = True"
    by code_simp
  have i: "initialize ascii_lower (init_api ''R'') ?W = (Inr (), ?a, ?w1)"
    by (rule triple_collapse [OF i0])
  have e: "ensure_valid_token ?a ?w1 = (True, ?a2, ?w2)"
    by (rule triple_collapse [OF e0])
  have d: "default_room_id ?a = JStr ''A''"
    by code_simp
  have t: "truthy (default_room_id ?a)"
    by (simp add: d)
  have m1: "hi_arguments ''message'' = Some (JStr ''hi'')"
    by (simp add: hi_arguments_def)
  have m2: "nod_arguments ''motion_name'' = Some (JStr ''simple_nod'') \<and>
            map_of PREDEFINED_MOTIONS ''simple_nod'' = Some SimpleNodDoc"
    by (simp add: nod_arguments_def PREDEFINED_MOTIONS_def)
  have m3: "custom_arguments ''motion_json'' = Some (JObj [])"
    by (simp add: custom_arguments_def)
  have q1: "requests ?w2 @ [PostMessage (default_room_id ?a) (JStr ''hi'')
                              (clock ?w2 (ticks ?w2) div 1000) (access_token ?a2)]
              = [PostTokenRefresh ''R'', GetRooms (JStr ''tok''),
                 PostMessage (JStr ''A'') (JStr ''hi'') 3000 (JStr ''tok'')]"
    by code_simp
  have q2: "requests ?w2 @ [PostMotion (default_room_id ?a) SimpleNodDoc (access_token ?a2)]
              = [PostTokenRefresh ''R'', GetRooms (JStr ''tok''),
                 PostMotion (JStr ''A'') SimpleNodDoc (JStr ''tok'')]"
    by code_simp
  have q3: "requests ?w2 @ [PostMotion (default_room_id ?a) (CustomDoc (JObj [])) (access_token ?a2)]
              = [PostTokenRefresh ''R'', GetRooms (JStr ''tok''),
                 PostMotion (JStr ''A'') (CustomDoc (JObj [])) (JStr ''tok'')]"
    by code_simp
  note c1 = empty_room_name_as_omitted [where lw = ascii_lower and R = "''R''" and name = "''bocco_send_message''" and arguments = hi_arguments and w = ?W and a = ?a and ?w1.0 = ?w1 and ?a2.0 = ?a2 and ?w2.0 = ?w2 and msg = "JStr ''hi''"]
  note c2 = empty_room_name_as_omitted [where lw = ascii_lower and R = "''R''" and arguments = nod_arguments and w = ?W and a = ?a and ?w1.0 = ?w1 and ?a2.0 = ?a2 and ?w2.0 = ?w2 and m = "''simple_nod''" and doc = SimpleNodDoc]
  note c3 = empty_room_name_as_omitted [where lw = ascii_lower and R = "''R''" and arguments = custom_arguments and w = ?W and a = ?a and ?w1.0 = ?w1 and ?a2.0 = ?a2 and ?w2.0 = ?w2 and mj = "JObj []"]
  from c1 have s1:
    "call_tool ascii_lower ''R'' ''bocco_send_message'' (hi_arguments(''room_name'' \<mapsto> JStr [])) ?W
       = call_tool ascii_lower ''R'' ''bocco_send_message'' (hi_arguments(''room_name'' := None)) ?W"
    and s2: "\<not> is_room_not_found
       (fst (call_tool ascii_lower ''R'' ''bocco_send_message''
               (hi_arguments(''room_name'' \<mapsto> JStr [])) ?W))"
    by blast+
  from c1 i e t m1 have
    "requests (snd (call_tool ascii_lower ''R'' ''bocco_send_message''
                      (hi_arguments(''room_name'' \<mapsto> JStr [])) ?W))
       = requests ?w2 @ [PostMessage (default_room_id ?a) (JStr ''hi'')
                           (clock ?w2 (ticks ?w2) div 1000) (access_token ?a2)]"
    by blast
  then have r1:
    "requests (snd (call_tool ascii_lower ''R'' ''bocco_send_message''
                      (hi_arguments(''room_name'' \<mapsto> JStr [])) ?W))
       = [PostTokenRefresh ''R'', GetRooms (JStr ''tok''),
          PostMessage (JStr ''A'') (JStr ''hi'') 3000 (JStr ''tok'')]"
    by (simp only: q1)
  from c2 i e t m2 have
    "requests (snd (call_tool ascii_lower ''R'' ''bocco_send_motion''
                      (nod_arguments(''room_name'' \<mapsto> JStr [])) ?W))
       = requests ?w2 @ [PostMotion (default_room_id ?a) SimpleNodDoc (access_token ?a2)]"
    by blast
  then have r2:
    "requests (snd (call_tool ascii_lower ''R'' ''bocco_send_motion''
                      (nod_arguments(''room_name'' \<mapsto> JStr [])) ?W))
       = [PostTokenRefresh ''R'', GetRooms (JStr ''tok''),
          PostMotion (JStr ''A'') SimpleNodDoc (JStr ''tok'')]"
    by (simp only: q2)
  from c3 i e t m3 have
    "requests (snd (call_tool ascii_lower ''R'' ''bocco_custom_motion''
                      (custom_arguments(''room_name'' \<mapsto> JStr [])) ?W))
       = requests ?w2 @ [PostMotion (default_room_id ?a) (CustomDoc (JObj [])) (access_token ?a2)]"
    by blast
  then have r3:
    "requests (snd (call_tool ascii_lower ''R'' ''bocco_custom_motion''
                      (custom_arguments(''room_name'' \<mapsto> JStr [])) ?W))
       = [PostTokenRefresh ''R'', GetRooms (JStr ''tok''),
          PostMotion (JStr ''A'') (CustomDoc (JObj [])) (JStr ''tok'')]"
    by (simp only: q3)
  from s1 s2 i0 d r1 r2 r3 show ?thesis by blast
qed

end
